theory Spec2Isabelle
  imports Complex_Main
begin

section \<open>Floating-point values\<close>

text \<open>
  The script \<^verbatim>\<open>tm.py\<close> works on pandas columns of Python floats. A float is modelled
  by its IEEE class: a finite value (taken as the exact real it denotes, so rounding and
  signed zeros are not represented), the two infinities, and NaN, which pandas also uses
  as the marker of a missing value.
\<close>

datatype pyfloat = Fin real | PInf | NInf | NaN

type_synonym series = "pyfloat list"

fun fneg :: "pyfloat \<Rightarrow> pyfloat" where
  "fneg (Fin a) = Fin (- a)"
| "fneg PInf = NInf"
| "fneg NInf = PInf"
| "fneg NaN = NaN"

fun fadd :: "pyfloat \<Rightarrow> pyfloat \<Rightarrow> pyfloat" where
  "fadd NaN _ = NaN"
| "fadd _ NaN = NaN"
| "fadd (Fin a) (Fin b) = Fin (a + b)"
| "fadd PInf NInf = NaN"
| "fadd NInf PInf = NaN"
| "fadd PInf _ = PInf"
| "fadd NInf _ = NInf"
| "fadd (Fin a) PInf = PInf"
| "fadd (Fin a) NInf = NInf"

definition fsub :: "pyfloat \<Rightarrow> pyfloat \<Rightarrow> pyfloat" where
  "fsub a b = fadd a (fneg b)"

text \<open>The sign of a value that is not NaN: \<open>1\<close>, \<open>0\<close> or \<open>-1\<close>.\<close>

fun fsgn :: "pyfloat \<Rightarrow> real" where
  "fsgn (Fin a) = sgn a"
| "fsgn PInf = 1"
| "fsgn NInf = - 1"
| "fsgn NaN = 0"

definition inf_of_sign :: "real \<Rightarrow> pyfloat" where
  "inf_of_sign s = (if 0 < s then PInf else if s < 0 then NInf else NaN)"

fun fmul :: "pyfloat \<Rightarrow> pyfloat \<Rightarrow> pyfloat" where
  "fmul NaN _ = NaN"
| "fmul _ NaN = NaN"
| "fmul (Fin a) (Fin b) = Fin (a * b)"
| "fmul a b = inf_of_sign (fsgn a * fsgn b)"

text \<open>
  Division as numpy does it on float arrays: no exception; a non-zero finite value over
  zero is an infinity, zero over zero is NaN.
\<close>

fun fdiv :: "pyfloat \<Rightarrow> pyfloat \<Rightarrow> pyfloat" where
  "fdiv NaN _ = NaN"
| "fdiv _ NaN = NaN"
| "fdiv (Fin a) (Fin b) = (if b = 0 then inf_of_sign a else Fin (a / b))"
| "fdiv (Fin a) _ = Fin 0"
| "fdiv PInf (Fin b) = (if b < 0 then NInf else PInf)"
| "fdiv NInf (Fin b) = (if b < 0 then PInf else NInf)"
| "fdiv _ _ = NaN"

fun fsqrt :: "pyfloat \<Rightarrow> pyfloat" where
  "fsqrt (Fin a) = (if a < 0 then NaN else Fin (sqrt a))"
| "fsqrt PInf = PInf"
| "fsqrt _ = NaN"

text \<open>Comparisons: every ordered comparison with NaN is false, \<^verbatim>\<open>!=\<close> with NaN is true.\<close>

fun flt :: "pyfloat \<Rightarrow> pyfloat \<Rightarrow> bool" where
  "flt NaN _ = False"
| "flt _ NaN = False"
| "flt (Fin a) (Fin b) = (a < b)"
| "flt NInf b = (b \<noteq> NInf)"
| "flt a PInf = (a \<noteq> PInf)"
| "flt _ _ = False"

definition fgt :: "pyfloat \<Rightarrow> pyfloat \<Rightarrow> bool" where
  "fgt a b = flt b a"

definition fne :: "pyfloat \<Rightarrow> pyfloat \<Rightarrow> bool" where
  "fne a b = (a = NaN \<or> b = NaN \<or> a \<noteq> b)"

fun fsum :: "series \<Rightarrow> pyfloat" where
  "fsum [] = Fin 0"
| "fsum (x # xs) = fadd x (fsum xs)"

section \<open>The pandas operations the script calls\<close>

text \<open>
  Modelled from the spec: the bodies of the pandas methods \<^verbatim>\<open>dropna\<close>, \<^verbatim>\<open>mean\<close>,
  \<^verbatim>\<open>std\<close>, \<^verbatim>\<open>rolling(window).mean\<close>, \<^verbatim>\<open>pct_change\<close> and of column assignment are
  not part of the repository. They follow sections 4.5 and 9 of the specification: the
  mean and the (sample) standard deviation of the defined values, the trailing
  rolling-window mean, and the period-over-period percentage change
  \<^verbatim>\<open>(y[t]-y[t-1])/y[t-1]\<close>, whose division by zero is unhandled and produces an
  infinite or NaN term.
\<close>

definition dropna :: "series \<Rightarrow> series" where
  "dropna xs = filter (\<lambda>v. v \<noteq> NaN) xs"

definition mean :: "series \<Rightarrow> pyfloat" where
  "mean xs =
     (let vs = dropna xs
      in if vs = [] then NaN else fdiv (fsum vs) (Fin (real (length vs))))"

definition std :: "series \<Rightarrow> pyfloat" where
  "std xs =
     (let vs = dropna xs; n = length vs
      in if n \<le> 1 then NaN
         else let avg = fdiv (fsum vs) (Fin (real n));
                  sqr = map (\<lambda>v. fmul (fsub avg v) (fsub avg v)) vs
              in fsqrt (fdiv (fsum sqr) (Fin (real (n - 1)))))"

definition rolling_mean :: "nat \<Rightarrow> series \<Rightarrow> series" where
  "rolling_mean w xs =
     map (\<lambda>i. if i + 1 < w then NaN
               else fdiv (fsum (take w (drop (i + 1 - w) xs))) (Fin (real w)))
       [0..<length xs]"

definition pct_change :: "series \<Rightarrow> series" where
  "pct_change xs =
     (case xs of
        [] \<Rightarrow> []
      | _ # rest \<Rightarrow> NaN # map (\<lambda>(prev, cur). fdiv (fsub cur prev) prev) (zip xs rest))"

text \<open>
  A series keeps the row labels of the table it was taken from. The labels of a table are
  distinct (section 3 of the specification), so a label is identified with its row
  number: \<open>dropna_rows\<close> is \<^verbatim>\<open>dropna\<close> on a labelled series, and assigning a labelled
  series to a column puts each value in the row of its label and NaN in the rows that
  have none.
\<close>

definition dropna_rows :: "series \<Rightarrow> (nat \<times> pyfloat) list" where
  "dropna_rows xs = filter (\<lambda>(i, v). v \<noteq> NaN) (zip [0..<length xs] xs)"

definition reindex :: "nat \<Rightarrow> (nat \<times> pyfloat) list \<Rightarrow> series" where
  "reindex n rows = map (\<lambda>i. case map_of rows i of None \<Rightarrow> NaN | Some v \<Rightarrow> v) [0..<n]"

record 't dataframe =
  index :: "'t list"
  columns :: "string \<rightharpoonup> series"

definition len :: "'t dataframe \<Rightarrow> int" where
  "len df = int (length (index df))"

definition set_column :: "'t dataframe \<Rightarrow> string \<Rightarrow> (nat \<times> pyfloat) list \<Rightarrow> 't dataframe" where
  "set_column df name rows =
     df\<lparr>columns := (columns df)(name \<mapsto> reindex (length (index df)) rows)\<rparr>"

definition head :: "'t dataframe \<Rightarrow> 't dataframe" where
  "head df = \<lparr>index = take 5 (index df), columns = map_option (take 5) \<circ> columns df\<rparr>"

section \<open>The statsmodels routines\<close>

text \<open>
  \<^verbatim>\<open>seasonal_decompose\<close>, \<^verbatim>\<open>adfuller\<close>, \<^verbatim>\<open>acf\<close> and \<^verbatim>\<open>pacf\<close> are imported from
  statsmodels; the script is modelled over any implementation of them. Each either
  returns its result or raises an exception of type \<open>'e\<close>.
\<close>

record decomposition =
  observed :: series
  trend :: series
  seasonal :: series
  resid :: series

text \<open>Of the tuple \<^verbatim>\<open>adfuller\<close> returns, component 0 is the statistic and component 1 the p-value.\<close>

record adf_result =
  adfstat :: pyfloat
  pvalue :: pyfloat
  usedlag :: nat

record 'e statsmodels =
  seasonal_decompose :: "series \<Rightarrow> 'e + decomposition"
  adfuller :: "series \<Rightarrow> 'e + adf_result"
  acf :: "series \<Rightarrow> int \<Rightarrow> 'e + series"
  pacf :: "series \<Rightarrow> int \<Rightarrow> 'e + series"

section \<open>The script\<close>

datatype 't figure =
    TimeSeriesFig "'t list" series
  | DecompositionFig decomposition
  | CorrelationFig series series

text \<open>
  What the script puts on the page, in order. \<open>st_write_volatility v\<close> is the line
  \<^verbatim>\<open>- The volatility of the time series is {v:.2f}.\<close> and \<open>st_error_analysis e\<close> the box
  \<^verbatim>\<open>Error during analysis: {e}\<close>.
\<close>

datatype ('e, 't) element =
    st_write string
  | st_write_frame "'t dataframe"
  | st_write_volatility pyfloat
  | st_subheader string
  | st_pyplot "'t figure"
  | st_error string
  | st_error_analysis 'e
  | st_info string

definition lags :: "'t dataframe \<Rightarrow> int" where
  "lags df = min (len df - 1) 40"

definition mean_reversion :: "series \<Rightarrow> series" where
  "mean_reversion y = dropna (rolling_mean 12 y)"

definition returns :: "series \<Rightarrow> (nat \<times> pyfloat) list" where
  "returns y = dropna_rows (pct_change y)"

text \<open>Line 111, \<^verbatim>\<open>df['Returns'] = df['Passengers'].pct_change().dropna()\<close>.\<close>

definition add_returns :: "'t dataframe \<Rightarrow> series \<Rightarrow> 't dataframe" where
  "add_returns df y = set_column df ''Returns'' (returns y)"

text \<open>Line 112, \<^verbatim>\<open>volatility = df['Returns'].std()\<close>.\<close>

definition volatility :: "'t dataframe \<Rightarrow> pyfloat" where
  "volatility df = std (the (columns df ''Returns''))"

text \<open>The verdicts of lines 63 to 81, written once the decomposition is there.\<close>

definition component_verdicts :: "decomposition \<Rightarrow> ('e, 't) element list" where
  "component_verdicts d =
     [st_write ''Analysis of the time series:'',
      st_write (if fne (mean (dropna (trend d))) (Fin 0)
                then ''- The time series has a trend component.''
                else ''- No significant trend detected.''),
      st_write (if fne (mean (dropna (seasonal d))) (Fin 0)
                then ''- The time series has a seasonal component.''
                else ''- No significant seasonality detected.''),
      st_write (if fgt (std (dropna (resid d))) (Fin 10)
                then ''- The time series has irregular components.''
                else ''- No significant irregularity detected.'')]"

definition stationarity_verdict :: "adf_result \<Rightarrow> ('e, 't) element" where
  "stationarity_verdict result =
     st_write (if flt (pvalue result) (Fin 0.05)
               then ''- The time series is stationary.''
               else ''- The time series is not stationary.'')"

definition mean_reversion_verdict :: "series \<Rightarrow> ('e, 't) element" where
  "mean_reversion_verdict y =
     st_write (if fgt (std (mean_reversion y)) (Fin 10)
               then ''- The time series exhibits mean reversion.''
               else ''- No significant mean reversion detected.'')"

text \<open>
  The body of the \<^verbatim>\<open>try\<close> block (lines 44 to 113) on the table \<open>df\<close> whose column
  \<^verbatim>\<open>Passengers\<close> is \<open>y\<close>. Its outcome is the table as the block leaves it, what it has
  put on the page, and the exception that ended it, if one did.
\<close>

record ('e, 't) outcome =
  table :: "'t dataframe"
  shown :: "('e, 't) element list"
  raised :: "'e option"

definition analysis :: "'e statsmodels \<Rightarrow> 't dataframe \<Rightarrow> series \<Rightarrow> ('e, 't) outcome" where
  "analysis sm df y =
     (case seasonal_decompose sm y of
        Inl e \<Rightarrow> \<lparr>table = df, shown = [], raised = Some e\<rparr>
      | Inr d \<Rightarrow>
          let out1 = st_pyplot (DecompositionFig d) # component_verdicts d
          in (case adfuller sm (dropna y) of
                Inl e \<Rightarrow> \<lparr>table = df, shown = out1, raised = Some e\<rparr>
              | Inr result \<Rightarrow>
                  let out2 = out1 @ [stationarity_verdict result]
                  in (case acf sm (dropna y) (lags df) of
                        Inl e \<Rightarrow> \<lparr>table = df, shown = out2, raised = Some e\<rparr>
                      | Inr acf_values \<Rightarrow>
                          (case pacf sm (dropna y) (lags df) of
                             Inl e \<Rightarrow> \<lparr>table = df, shown = out2, raised = Some e\<rparr>
                           | Inr pacf_values \<Rightarrow>
                               let df' = add_returns df y
                               in \<lparr>table = df',
                                   shown = out2 @ [st_pyplot (CorrelationFig acf_values pacf_values),
                                                   mean_reversion_verdict y,
                                                   st_write_volatility (volatility df')],
                                   raised = None\<rparr>))))"

text \<open>The \<^verbatim>\<open>try\<close> statement with its handler (lines 43 to 116).\<close>

definition try_analysis ::
  "'e statsmodels \<Rightarrow> 't dataframe \<Rightarrow> series \<Rightarrow> 't dataframe \<times> ('e, 't) element list" where
  "try_analysis sm df y =
     (let r = analysis sm df y
      in case raised r of
           None \<Rightarrow> (table r, shown r)
         | Some e \<Rightarrow> (table r, shown r @ [st_error_analysis e]))"

text \<open>
  The script from line 19 on: \<open>uploaded\<close> is the table read from the uploaded file, if a
  file was uploaded, and \<open>button\<close> tells whether the information button was pressed.
\<close>

definition about_time_series :: "('e, 't) element list" where
  "about_time_series =
     [st_subheader ''About Time Series Analysis'', st_write ''What is Time Series Analysis? ...'']"

definition app ::
  "'e statsmodels \<Rightarrow> 't dataframe option \<Rightarrow> bool \<Rightarrow> 't dataframe option \<times> ('e, 't) element list" where
  "app sm uploaded button =
     (case uploaded of
        None \<Rightarrow> (None, [st_info ''Please upload a CSV file to start.''])
      | Some df \<Rightarrow>
          let (df', out) =
                (case columns df ''Passengers'' of
                   None \<Rightarrow> (df, [st_error ''CSV file must contain a 'Passengers' column.''])
                 | Some y \<Rightarrow>
                     let (df', out) = try_analysis sm df y
                     in (df', [st_write ''Data successfully loaded:'', st_write_frame (head df),
                               st_subheader ''Time Series Plot'',
                               st_pyplot (TimeSeriesFig (index df) y),
                               st_subheader ''Time Series Decomposition''] @ out))
          in (Some df', out @ (if button then about_time_series else [])))"

section \<open>The numerical engine of the specification\<close>

datatype error =
    SchemaError
  | EmptyInputError
  | NonMonotonicTimeError
  | InsufficientDataError
  | DegenerateSeriesError
  | NumericInstabilityError

subsection \<open>Decomposer\<close>

text \<open>
  Modelled from the spec: the body of \<^verbatim>\<open>seasonal_decompose\<close> is not part of the
  repository. \<open>decompose\<close> follows the six steps and the error condition of section 4.2;
  an undefined entry is NaN.
\<close>

definition window_mean :: "series \<Rightarrow> nat \<Rightarrow> nat \<Rightarrow> pyfloat" where
  "window_mean xs w k = fdiv (fsum (take w (drop k xs))) (Fin (real w))"

definition centered_average :: "series \<Rightarrow> nat \<Rightarrow> nat \<Rightarrow> pyfloat" where
  "centered_average xs period i =
     (let h = period div 2
      in if i < h \<or> length xs \<le> i + h then NaN
         else if even period
         then fdiv (fadd (window_mean xs period (i - h)) (window_mean xs period (i - h + 1))) (Fin 2)
         else window_mean xs period (i - h))"

definition nth_or_nan :: "series \<Rightarrow> nat \<Rightarrow> pyfloat" where
  "nth_or_nan xs i = (if i < length xs then xs ! i else NaN)"

definition seasonal_indices :: "series \<Rightarrow> nat \<Rightarrow> series" where
  "seasonal_indices detrended period =
     (let raw = map (\<lambda>p. mean (map (nth_or_nan detrended)
                                  (filter (\<lambda>i. i mod period = p) [0..<length detrended])))
                  [0..<period];
          m = fdiv (fsum raw) (Fin (real period))
      in map (\<lambda>s. fsub s m) raw)"

definition decompose :: "series \<Rightarrow> nat \<Rightarrow> error + decomposition" where
  "decompose xs period =
     (if length xs < 2 * period then Inl InsufficientDataError
      else let n = length xs;
               tr = map (centered_average xs period) [0..<n];
               detrended = map (\<lambda>(x, t). fsub x t) (zip xs tr);
               normalized = seasonal_indices detrended period;
               seas = map (\<lambda>i. nth_or_nan normalized (i mod period)) [0..<n]
           in Inr \<lparr>observed = xs, trend = tr, seasonal = seas,
                    resid = map (\<lambda>(d, s). fsub d s) (zip detrended seas)\<rparr>)"

subsection \<open>CorrelationEngine\<close>

text \<open>
  Modelled from the spec: the bodies of \<^verbatim>\<open>acf\<close> and \<^verbatim>\<open>pacf\<close> are not part of the
  repository. \<open>correlate\<close> follows section 4.4: the biased sample autocovariance at lag
  \<open>k\<close> over the one at lag 0, the Durbin-Levinson recursion on these values for the
  partial autocorrelation, the value 1 at lag 0 of both, and the error condition.
\<close>

definition deviations :: "series \<Rightarrow> series" where
  "deviations y = (let m = fdiv (fsum y) (Fin (real (length y))) in map (\<lambda>v. fsub v m) y)"

definition autocov :: "series \<Rightarrow> nat \<Rightarrow> pyfloat" where
  "autocov y k =
     (let d = deviations y
      in fsum (map (\<lambda>t. fmul (nth_or_nan d t) (nth_or_nan d (t - k))) [k..<length y]))"

definition acf_at :: "series \<Rightarrow> nat \<Rightarrow> pyfloat" where
  "acf_at y k = fdiv (autocov y k) (autocov y 0)"

text \<open>\<open>durbin_levinson r k\<close> lists the coefficients of the best linear predictor of order \<open>k\<close>.\<close>

fun durbin_levinson :: "(nat \<Rightarrow> pyfloat) \<Rightarrow> nat \<Rightarrow> series" where
  "durbin_levinson r 0 = []"
| "durbin_levinson r (Suc k) =
     (let prev = durbin_levinson r k;
          num = fsub (r (Suc k)) (fsum (map (\<lambda>j. fmul (nth_or_nan prev j) (r (k - j))) [0..<k]));
          den = fsub (Fin 1) (fsum (map (\<lambda>j. fmul (nth_or_nan prev j) (r (Suc j))) [0..<k]));
          c = fdiv num den
      in map (\<lambda>j. fsub (nth_or_nan prev j) (fmul c (nth_or_nan prev (k - 1 - j)))) [0..<k] @ [c])"

definition pacf_at :: "series \<Rightarrow> nat \<Rightarrow> pyfloat" where
  "pacf_at y k = (if k = 0 then Fin 1 else last (durbin_levinson (acf_at y) k))"

definition correlate :: "series \<Rightarrow> int \<Rightarrow> error + series \<times> series" where
  "correlate y max_lag =
     (if int (length y) \<le> max_lag then Inl InsufficientDataError
      else Inr (map (acf_at y) [0..<nat (max_lag + 1)], map (pacf_at y) [0..<nat (max_lag + 1)]))"

subsection \<open>Volatility as section 9 recommends it\<close>

text \<open>
  The policy recommended in section 9 of the specification, in its words: the points
  whose denominator is zero are skipped, and the computation fails with
  \<open>NumericInstabilityError\<close> when every point is skipped.
\<close>

definition pct_change_skipping_zero :: "series \<Rightarrow> series" where
  "pct_change_skipping_zero y =
     map (\<lambda>(prev, cur). fdiv (fsub cur prev) prev)
       (filter (\<lambda>(prev, cur). prev \<noteq> Fin 0) (zip y (tl y)))"

definition volatility_skipping_zero :: "series \<Rightarrow> error + pyfloat" where
  "volatility_skipping_zero y =
     (let points = pct_change_skipping_zero y
      in if points = [] then Inl NumericInstabilityError else Inr (std points))"

section \<open>The script over the engine of the specification\<close>

text \<open>
  The four statsmodels routines as the engine of the specification provides them, for a
  seasonal period and a stationarity test \<open>adf\<close> (the regression and the tables of section
  4.3 are not modelled).
\<close>

definition engine :: "nat \<Rightarrow> (series \<Rightarrow> error + adf_result) \<Rightarrow> error statsmodels" where
  "engine period adf =
     \<lparr>seasonal_decompose = (\<lambda>y. decompose y period),
      adfuller = adf,
      acf = (\<lambda>y max_lag. map_sum id fst (correlate y max_lag)),
      pacf = (\<lambda>y max_lag. map_sum id snd (correlate y max_lag))\<rparr>"

text \<open>The sample standard deviation and the percentage changes of a list of real numbers.\<close>

definition sample_std :: "real list \<Rightarrow> real" where
  "sample_std qs =
     (let m = sum_list qs / real (length qs)
      in sqrt (sum_list (map (\<lambda>q. (m - q) * (m - q)) qs) / real (length qs - 1)))"

definition pct_changes :: "real list \<Rightarrow> real list" where
  "pct_changes rs = map (\<lambda>(prev, cur). (cur - prev) / prev) (zip rs (tl rs))"

section \<open>Properties of the script\<close>

subsection \<open>The course of the analysis\<close>

lemma analysis_decompose_fails:
  "seasonal_decompose sm y = Inl e \<Longrightarrow> analysis sm df y = \<lparr>table = df, shown = [], raised = Some e\<rparr>"
  by (simp add: analysis_def)

lemma analysis_success:
  assumes "raised (analysis sm df y) = None"
  shows "\<exists>d result a p.
           seasonal_decompose sm y = Inr d \<and> adfuller sm (dropna y) = Inr result \<and>
           acf sm (dropna y) (lags df) = Inr a \<and> pacf sm (dropna y) (lags df) = Inr p \<and>
           table (analysis sm df y) = add_returns df y \<and>
           shown (analysis sm df y) = st_pyplot (DecompositionFig d) # component_verdicts d @
                 [stationarity_verdict result, st_pyplot (CorrelationFig a p),
                  mean_reversion_verdict y, st_write_volatility (volatility (add_returns df y))]"
  using assms
  by (auto simp: analysis_def Let_def split: sum.splits)

lemma analysis_completes:
  assumes "seasonal_decompose sm y = Inr d" and "adfuller sm (dropna y) = Inr result"
    and "acf sm (dropna y) (lags df) = Inr a" and "pacf sm (dropna y) (lags df) = Inr p"
  shows "analysis sm df y =
           \<lparr>table = add_returns df y,
            shown = st_pyplot (DecompositionFig d) # component_verdicts d @
                 [stationarity_verdict result, st_pyplot (CorrelationFig a p),
                  mean_reversion_verdict y, st_write_volatility (volatility (add_returns df y))],
            raised = None\<rparr>"
  using assms by (simp add: analysis_def Let_def)

lemma analysis_failure:
  assumes "raised (analysis sm df y) = Some e"
  shows "table (analysis sm df y) = df"
  using assms
  by (auto simp: analysis_def Let_def split: sum.splits)

lemma map_of_dropna_rows:
  assumes "i < length xs"
  shows "map_of (dropna_rows xs) i = (if xs ! i = NaN then None else Some (xs ! i))"
proof (cases "xs ! i = NaN")
  case True
  have "i \<notin> fst ` set (dropna_rows xs)"
    using True by (auto simp: dropna_rows_def set_zip)
  then show ?thesis using True by (simp add: map_of_eq_None_iff)
next
  case False
  have "map_of (zip [0..<length xs] xs) ([0..<length xs] ! i) = Some (xs ! i)"
    using assms by (intro map_of_zip_nth) simp_all
  then have "map_of (zip [0..<length xs] xs) i = Some (xs ! i)" using assms by simp
  then have "map_of (filter (\<lambda>(j, v). v \<noteq> NaN) (zip [0..<length xs] xs)) i = Some (xs ! i)"
    using False by (rule map_of_filter_in)
  then show ?thesis using False by (simp add: dropna_rows_def)
qed

lemma reindex_dropna_rows: "reindex (length xs) (dropna_rows xs) = xs"
  by (rule nth_equalityI) (simp_all add: reindex_def map_of_dropna_rows)

lemma length_pct_change: "length (pct_change y) = length y"
  by (cases y) (simp_all add: pct_change_def)

lemma reindex_returns: "reindex (length y) (returns y) = pct_change y"
  using reindex_dropna_rows [of "pct_change y"] by (simp add: returns_def length_pct_change)

lemma add_returns_eq:
  "length (index df) = length y \<Longrightarrow>
   add_returns df y = df\<lparr>columns := (columns df)(''Returns'' \<mapsto> pct_change y)\<rparr>"
  by (simp add: add_returns_def set_column_def reindex_returns)

lemma engine_completes:
  assumes "2 * period \<le> length y" and "adf (dropna y) = Inr result"
    and "lags df < int (length (dropna y))"
  shows "raised (analysis (engine period adf) df y) = None"
proof -
  obtain d where d: "seasonal_decompose (engine period adf) y = Inr d"
    using assms(1) by (simp add: engine_def decompose_def Let_def)
  have r: "adfuller (engine period adf) (dropna y) = Inr result"
    using assms(2) by (simp add: engine_def)
  obtain a p where c: "correlate (dropna y) (lags df) = Inr (a, p)"
    using assms(3) by (simp add: correlate_def)
  then have "acf (engine period adf) (dropna y) (lags df) = Inr a"
    and "pacf (engine period adf) (dropna y) (lags df) = Inr p"
    by (simp_all add: engine_def)
  from analysis_completes [OF d r this] show ?thesis by simp
qed

lemma shown_after_adfuller:
  assumes "seasonal_decompose sm y = Inr d" and "adfuller sm (dropna y) = Inr result"
  shows "shown (analysis sm df y) =
           st_pyplot (DecompositionFig d) # component_verdicts d @ [stationarity_verdict result]
         \<or> (\<exists>a p v. shown (analysis sm df y) =
               st_pyplot (DecompositionFig d) # component_verdicts d @
               [stationarity_verdict result, st_pyplot (CorrelationFig a p),
                mean_reversion_verdict y, st_write_volatility v])"
  using assms by (auto simp: analysis_def Let_def split: sum.splits)

lemma shown_after_decomposition:
  assumes "seasonal_decompose sm y = Inr d"
  shows "shown (analysis sm df y) = st_pyplot (DecompositionFig d) # component_verdicts d
         \<or> (\<exists>result. shown (analysis sm df y) =
               st_pyplot (DecompositionFig d) # component_verdicts d @ [stationarity_verdict result])
         \<or> (\<exists>result a p v. shown (analysis sm df y) =
               st_pyplot (DecompositionFig d) # component_verdicts d @
               [stationarity_verdict result, st_pyplot (CorrelationFig a p),
                mean_reversion_verdict y, st_write_volatility v])"
  using assms by (auto simp: analysis_def Let_def split: sum.splits)

lemma decompose_example:
  "decompose [Fin 1, Fin 2, Fin 4, Fin 3] 2 =
     Inr \<lparr>observed = [Fin 1, Fin 2, Fin 4, Fin 3],
          trend = [NaN, Fin (9 / 4), Fin (13 / 4), NaN],
          seasonal = [Fin (1 / 2), Fin (- 1 / 2), Fin (1 / 2), Fin (- 1 / 2)],
          resid = [NaN, Fin (1 / 4), Fin (1 / 4), NaN]\<rparr>"
  by code_simp

subsection \<open>Arithmetic on finite values\<close>

lemma fsub_Fin [simp]: "fsub (Fin a) (Fin b) = Fin (a - b)"
  by (simp add: fsub_def)

lemma fadd_NaN_right [simp]: "fadd a NaN = NaN"
  by (cases a) simp_all

lemma fsub_NaN_right [simp]: "fsub a NaN = NaN"
  by (simp add: fsub_def)

lemma fmul_NaN_right [simp]: "fmul a NaN = NaN"
  by (cases a) simp_all

lemma fdiv_NaN_right [simp]: "fdiv a NaN = NaN"
  by (cases a) simp_all

lemma fsum_Fin: "fsum (map Fin rs) = Fin (sum_list rs)"
  by (induction rs) simp_all

lemma dropna_Fin: "dropna (map Fin rs) = map Fin rs"
  by (induction rs) (simp_all add: dropna_def)

lemma fsum_NaN: "NaN \<in> set xs \<Longrightarrow> fsum xs = NaN"
  by (induction xs) auto

lemma fsum_PInf: "PInf \<in> set xs \<Longrightarrow> fsum xs = PInf \<or> fsum xs = NaN"
proof (induction xs)
  case Nil
  then show ?case by simp
next
  case (Cons x xs)
  then show ?case
    by (cases x; cases "fsum xs") auto
qed

lemma fsum_NInf: "NInf \<in> set xs \<Longrightarrow> fsum xs = NInf \<or> fsum xs = NaN"
proof (induction xs)
  case Nil
  then show ?case by simp
next
  case (Cons x xs)
  then show ?case
    by (cases x; cases "fsum xs") auto
qed

lemma std_infinite:
  assumes "PInf \<in> set xs \<or> NInf \<in> set xs"
  shows "std xs = NaN"
proof (cases "length (dropna xs) \<le> 1")
  case True
  then show ?thesis by (simp add: std_def Let_def)
next
  case False
  define vs where "vs = dropna xs"
  define avg where "avg = fdiv (fsum vs) (Fin (real (length vs)))"
  have pos: "0 < real (length vs)" using False by (cases "dropna xs") (simp_all add: vs_def)
  have "\<exists>v \<in> set vs. fsub avg v = NaN"
  proof -
    from assms show ?thesis
    proof
      assume "PInf \<in> set xs"
      then have m: "PInf \<in> set vs" by (simp add: vs_def dropna_def)
      from fsum_PInf [OF m] pos have "avg = PInf \<or> avg = NaN"
        by (auto simp: avg_def)
      then have "fsub avg PInf = NaN" by (auto simp: fsub_def)
      with m show ?thesis by blast
    next
      assume "NInf \<in> set xs"
      then have m: "NInf \<in> set vs" by (simp add: vs_def dropna_def)
      from fsum_NInf [OF m] pos have "avg = NInf \<or> avg = NaN"
        by (auto simp: avg_def)
      then have "fsub avg NInf = NaN" by (auto simp: fsub_def)
      with m show ?thesis by blast
    qed
  qed
  then have "NaN \<in> set (map (\<lambda>v. fmul (fsub avg v) (fsub avg v)) vs)"
    by force
  then have "fsum (map (\<lambda>v. fmul (fsub avg v) (fsub avg v)) vs) = NaN"
    by (rule fsum_NaN)
  then show ?thesis
    using False by (simp add: std_def Let_def vs_def avg_def)
qed

lemma std_Fin:
  assumes "2 \<le> length qs"
  shows "std (map Fin qs) = Fin (sample_std qs)"
proof -
  have n1: "real (length qs) \<noteq> 0" using assms by auto
  have n2: "real (length qs - 1) > 0" using assms by auto
  have le: "(length qs \<le> 1) = False" using assms by auto
  define m where "m = sum_list qs / real (length qs)"
  define S where "S = sum_list (map (\<lambda>q. (m - q) * (m - q)) qs)"
  have avg: "fdiv (fsum (map Fin qs)) (Fin (real (length qs))) = Fin m"
    using n1 by (simp add: fsum_Fin m_def)
  have sq: "fsum (map (\<lambda>v. fmul (fsub (Fin m) v) (fsub (Fin m) v)) (map Fin qs)) = Fin S"
    unfolding S_def fsum_Fin [symmetric] by (simp add: comp_def)
  have nonneg: "0 \<le> S"
    unfolding S_def by (rule sum_list_nonneg) auto
  have "std (map Fin qs) = fsqrt (fdiv (Fin S) (Fin (real (length qs - 1))))"
    unfolding std_def Let_def dropna_Fin length_map le if_False avg sq ..
  also have "\<dots> = Fin (sqrt (S / real (length qs - 1)))"
  proof -
    have "0 \<le> S / real (length qs - 1)"
      using n2 nonneg by (intro divide_nonneg_nonneg) simp_all
    then have "\<not> S / real (length qs - 1) < 0" by simp
    moreover have "real (length qs - 1) \<noteq> 0" using n2 by simp
    ultimately show ?thesis by (simp del: of_nat_diff)
  qed
  also have "\<dots> = Fin (sample_std qs)"
    unfolding sample_std_def Let_def S_def m_def ..
  finally show ?thesis .
qed

lemma dropna_Cons_NaN: "dropna (NaN # xs) = dropna xs"
  by (simp add: dropna_def)

lemma std_Cons_NaN: "std (NaN # xs) = std xs"
  by (simp add: std_def dropna_Cons_NaN)

lemma deviations_Fin:
  assumes "rs \<noteq> []"
  shows "deviations (map Fin rs) = map Fin (map (\<lambda>r. r - sum_list rs / real (length rs)) rs)"
proof -
  have "real (length rs) \<noteq> 0" using assms by simp
  then have "fdiv (fsum (map Fin rs)) (Fin (real (length (map Fin rs))))
               = Fin (sum_list rs / real (length rs))"
    by (simp add: fsum_Fin)
  then show ?thesis
    by (simp add: deviations_def Let_def)
qed

lemma map_nth_upt: "map (\<lambda>i. f (xs ! i)) [0..<length xs] = map f xs"
  by (rule nth_equalityI) simp_all

lemma autocov_zero_Fin:
  assumes "rs \<noteq> []"
  shows "autocov (map Fin rs) 0
           = Fin (sum_list (map (\<lambda>r. (r - sum_list rs / real (length rs))
                                       * (r - sum_list rs / real (length rs))) rs))"
proof -
  define m where "m = sum_list rs / real (length rs)"
  define ds where "ds = map (\<lambda>r. r - m) rs"
  have d: "deviations (map Fin rs) = map Fin ds"
    using deviations_Fin [OF assms] by (simp add: ds_def m_def)
  have "map (\<lambda>t. fmul (nth_or_nan (map Fin ds) t) (nth_or_nan (map Fin ds) (t - 0))) [0..<length ds]
          = map (\<lambda>t. Fin (ds ! t * ds ! t)) [0..<length ds]"
    by (rule map_cong) (simp_all add: nth_or_nan_def)
  also have "\<dots> = map (\<lambda>d. Fin (d * d)) ds"
    by (rule map_nth_upt)
  also have "\<dots> = map Fin (map (\<lambda>r. (r - m) * (r - m)) rs)"
    by (simp add: ds_def)
  finally have "autocov (map Fin rs) 0 = fsum (map Fin (map (\<lambda>r. (r - m) * (r - m)) rs))"
    by (simp add: autocov_def Let_def d ds_def)
  then show ?thesis
    by (simp only: fsum_Fin m_def)
qed

lemma sum_squares_nonzero:
  fixes rs :: "real list"
  assumes "a \<in> set rs" and "b \<in> set rs" and "a \<noteq> b"
  shows "sum_list (map (\<lambda>r. (r - m) * (r - m)) rs) \<noteq> 0"
proof
  assume z: "sum_list (map (\<lambda>r. (r - m) * (r - m)) rs) = 0"
  have "\<forall>x \<in> set (map (\<lambda>r. (r - m) * (r - m)) rs). x = 0"
    using z by (subst (asm) sum_list_nonneg_eq_0_iff) auto
  then have "\<forall>r \<in> set rs. r = m" by simp
  then have "a = m" "b = m" using assms(1,2) by blast+
  with assms(3) show False by simp
qed

lemma acf_at_zero:
  assumes "a \<in> set rs" and "b \<in> set rs" and "a \<noteq> b"
  shows "acf_at (map Fin rs) 0 = Fin 1"
proof -
  have ne: "rs \<noteq> []" using assms(1) by auto
  define S where "S = sum_list (map (\<lambda>r. (r - sum_list rs / real (length rs))
                                       * (r - sum_list rs / real (length rs))) rs)"
  have "S \<noteq> 0" unfolding S_def using assms by (rule sum_squares_nonzero)
  moreover have "autocov (map Fin rs) 0 = Fin S"
    unfolding S_def using ne by (rule autocov_zero_Fin)
  ultimately show ?thesis by (simp add: acf_at_def)
qed

subsection \<open>Percentage changes of finite values\<close>

lemma nth_pct_change:
  assumes "Suc i < length y"
  shows "pct_change y ! Suc i = fdiv (fsub (y ! Suc i) (y ! i)) (y ! i)"
proof (cases y)
  case Nil
  with assms show ?thesis by simp
next
  case (Cons x rest)
  with assms have "i < length rest" by simp
  then show ?thesis by (simp add: Cons pct_change_def)
qed

lemma length_pct_changes: "length (pct_changes rs) = length rs - 1"
  by (simp add: pct_changes_def)

lemma nth_pct_changes:
  assumes "Suc i < length rs"
  shows "pct_changes rs ! i = (rs ! Suc i - rs ! i) / rs ! i"
  using assms by (simp add: pct_changes_def nth_tl)

lemma pct_change_Fin:
  assumes "rs \<noteq> []" and "0 \<notin> set (butlast rs)"
  shows "pct_change (map Fin rs) = NaN # map Fin (pct_changes rs)"
proof (rule nth_equalityI)
  show "length (pct_change (map Fin rs)) = length (NaN # map Fin (pct_changes rs))"
    using assms(1) by (cases rs) (simp_all add: length_pct_change length_pct_changes)
next
  fix i
  assume "i < length (pct_change (map Fin rs))"
  then have i: "i < length rs" by (simp add: length_pct_change)
  show "pct_change (map Fin rs) ! i = (NaN # map Fin (pct_changes rs)) ! i"
  proof (cases i)
    case 0
    then show ?thesis using assms(1) by (cases rs) (simp_all add: pct_change_def)
  next
    case (Suc j)
    with i have j: "Suc j < length rs" by simp
    then have "j < length (butlast rs)" by simp
    then have "butlast rs ! j \<in> set (butlast rs)" by (rule nth_mem)
    moreover have "butlast rs ! j = rs ! j" using j by (simp add: nth_butlast)
    ultimately have nz: "rs ! j \<noteq> 0" using assms(2) by metis
    have "pct_change (map Fin rs) ! Suc j
            = fdiv (fsub (map Fin rs ! Suc j) (map Fin rs ! j)) (map Fin rs ! j)"
      using j by (intro nth_pct_change) simp
    also have "\<dots> = Fin ((rs ! Suc j - rs ! j) / rs ! j)"
      using j nz by simp
    also have "\<dots> = map Fin (pct_changes rs) ! j"
      using j by (simp add: nth_pct_changes length_pct_changes)
    finally show ?thesis by (simp add: Suc)
  qed
qed

lemma pct_change_infinite:
  assumes "Suc i < length rs" and "rs ! i = 0" and "rs ! Suc i \<noteq> 0"
  shows "PInf \<in> set (pct_change (map Fin rs)) \<or> NInf \<in> set (pct_change (map Fin rs))"
proof -
  have "pct_change (map Fin rs) ! Suc i
          = fdiv (fsub (map Fin rs ! Suc i) (map Fin rs ! i)) (map Fin rs ! i)"
    using assms(1) by (intro nth_pct_change) simp
  also have "\<dots> = inf_of_sign (rs ! Suc i)"
    using assms by simp
  finally have "pct_change (map Fin rs) ! Suc i = PInf \<or> pct_change (map Fin rs) ! Suc i = NInf"
    using assms(3) by (auto simp: inf_of_sign_def)
  moreover have "pct_change (map Fin rs) ! Suc i \<in> set (pct_change (map Fin rs))"
    using assms(1) by (intro nth_mem) (simp add: length_pct_change)
  ultimately show ?thesis by metis
qed

lemma volatility_add_returns:
  assumes "length (index df) = length y"
  shows "columns (add_returns df y) ''Returns'' = Some (pct_change y)"
    and "volatility (add_returns df y) = std (pct_change y)"
  using assms by (simp_all add: add_returns_eq volatility_def)

subsection \<open>The results of the engine\<close>

lemma length_correlate:
  assumes "correlate s k = Inr (a, p)"
  shows "length a = nat (k + 1)" and "length p = nat (k + 1)"
  using assms by (auto simp: correlate_def split: if_splits)








subsection \<open>The decomposition of a series of finite values\<close>












subsection \<open>Stationarity verdict\<close>

text \<open>
  Claim C4. Whenever the analysis reaches the stationarity test and the test returns, the
  line "The time series is stationary" is on the page if and only if the p-value is
  strictly below 0.05 (the comparison \<^verbatim>\<open><\<close> of line 85, false for NaN), and the line
  "The time series is not stationary" if and only if it is not.
\<close>

theorem stationary_iff_pvalue_below_threshold:
  assumes "seasonal_decompose sm y = Inr d" and "adfuller sm (dropna y) = Inr result"
  shows "(st_write ''- The time series is stationary.'' \<in> set (shown (analysis sm df y)))
           = flt (pvalue result) (Fin 0.05) \<and>
         (st_write ''- The time series is not stationary.'' \<in> set (shown (analysis sm df y)))
           = (\<not> flt (pvalue result) (Fin 0.05))"
  using shown_after_adfuller [OF assms, of df]
  by (elim disjE exE)
    (simp_all add: component_verdicts_def stationarity_verdict_def mean_reversion_verdict_def)

theorem stationary_iff_pvalue_below_threshold_witness:
  "seasonal_decompose (engine 2 (\<lambda>s. Inr \<lparr>adfstat = Fin (- 3), pvalue = Fin (1 / 100), usedlag = 0\<rparr>)) [Fin 1, Fin 2, Fin 4, Fin 3] =
     Inr \<lparr>observed = [Fin 1, Fin 2, Fin 4, Fin 3],
          trend = [NaN, Fin (9 / 4), Fin (13 / 4), NaN],
          seasonal = [Fin (1 / 2), Fin (- 1 / 2), Fin (1 / 2), Fin (- 1 / 2)],
          resid = [NaN, Fin (1 / 4), Fin (1 / 4), NaN]\<rparr> \<and>
   adfuller (engine 2 (\<lambda>s. Inr \<lparr>adfstat = Fin (- 3), pvalue = Fin (1 / 100), usedlag = 0\<rparr>)) (dropna [Fin 1, Fin 2, Fin 4, Fin 3]) = Inr \<lparr>adfstat = Fin (- 3), pvalue = Fin (1 / 100), usedlag = 0\<rparr> \<and>
   st_write ''- The time series is stationary.''
     \<in> set (shown (analysis (engine 2 (\<lambda>s. Inr \<lparr>adfstat = Fin (- 3), pvalue = Fin (1 / 100), usedlag = 0\<rparr>)) 
        \<lparr>index = [0, 1, 2, 3 :: nat], columns = [''Passengers'' \<mapsto> [Fin 1, Fin 2, Fin 4, Fin 3]]\<rparr>
        [Fin 1, Fin 2, Fin 4, Fin 3])) \<and>
   st_write ''- The time series is not stationary.''
     \<notin> set (shown (analysis (engine 2 (\<lambda>s. Inr \<lparr>adfstat = Fin (- 3), pvalue = Fin (1 / 100), usedlag = 0\<rparr>)) 
        \<lparr>index = [0, 1, 2, 3 :: nat], columns = [''Passengers'' \<mapsto> [Fin 1, Fin 2, Fin 4, Fin 3]]\<rparr>
        [Fin 1, Fin 2, Fin 4, Fin 3]))"
proof -
  let ?sm = "engine 2 (\<lambda>s. Inr \<lparr>adfstat = Fin (- 3), pvalue = Fin (1 / 100), usedlag = 0\<rparr>)"
  let ?y = "[Fin 1, Fin 2, Fin 4, Fin 3]"
  let ?df = "\<lparr>index = [0, 1, 2, 3 :: nat], columns = [''Passengers'' \<mapsto> [Fin 1, Fin 2, Fin 4, Fin 3]]\<rparr>"
  have d: "seasonal_decompose ?sm ?y =
     Inr \<lparr>observed = [Fin 1, Fin 2, Fin 4, Fin 3],
          trend = [NaN, Fin (9 / 4), Fin (13 / 4), NaN],
          seasonal = [Fin (1 / 2), Fin (- 1 / 2), Fin (1 / 2), Fin (- 1 / 2)],
          resid = [NaN, Fin (1 / 4), Fin (1 / 4), NaN]\<rparr>"
    using decompose_example by (simp add: engine_def)
  have r: "adfuller ?sm (dropna ?y) = Inr \<lparr>adfstat = Fin (- 3), pvalue = Fin (1 / 100), usedlag = 0\<rparr>"
    by (simp add: engine_def)
  from stationary_iff_pvalue_below_threshold [OF d r, of ?df]
  have "st_write ''- The time series is stationary.'' \<in> set (shown (analysis ?sm ?df ?y))"
    and "st_write ''- The time series is not stationary.'' \<notin> set (shown (analysis ?sm ?df ?y))"
    by simp_all
  with d r show ?thesis by blast
qed

subsection \<open>Trend verdict\<close>

text \<open>
  Claim C8. Whenever the decomposition returns, the line "The time series has a trend
  component" is on the page if and only if the mean of the defined (not NaN) trend values
  differs from 0 in the sense of \<^verbatim>\<open>!=\<close> on floats (line 66): an exact inequality, true
  also when the mean is NaN. Otherwise the line "No significant trend detected" is there.
\<close>

theorem trend_present_iff_mean_nonzero:
  assumes "seasonal_decompose sm y = Inr d"
  shows "(st_write ''- The time series has a trend component.'' \<in> set (shown (analysis sm df y)))
           = fne (mean (dropna (trend d))) (Fin 0) \<and>
         (st_write ''- No significant trend detected.'' \<in> set (shown (analysis sm df y)))
           = (\<not> fne (mean (dropna (trend d))) (Fin 0))"
  using shown_after_decomposition [OF assms, of df]
  by (elim disjE exE)
    (simp_all add: component_verdicts_def stationarity_verdict_def mean_reversion_verdict_def)

theorem trend_present_iff_mean_nonzero_witness:
  "seasonal_decompose (engine 2 (\<lambda>s. Inr \<lparr>adfstat = Fin (- 3), pvalue = Fin (1 / 100), usedlag = 0\<rparr>)) [Fin 1, Fin 2, Fin 4, Fin 3] =
     Inr \<lparr>observed = [Fin 1, Fin 2, Fin 4, Fin 3],
          trend = [NaN, Fin (9 / 4), Fin (13 / 4), NaN],
          seasonal = [Fin (1 / 2), Fin (- 1 / 2), Fin (1 / 2), Fin (- 1 / 2)],
          resid = [NaN, Fin (1 / 4), Fin (1 / 4), NaN]\<rparr> \<and>
   mean (dropna [NaN, Fin (9 / 4), Fin (13 / 4), NaN]) = Fin (11 / 4) \<and>
   st_write ''- The time series has a trend component.''
     \<in> set (shown (analysis (engine 2 (\<lambda>s. Inr \<lparr>adfstat = Fin (- 3), pvalue = Fin (1 / 100), usedlag = 0\<rparr>)) 
        \<lparr>index = [0, 1, 2, 3 :: nat], columns = [''Passengers'' \<mapsto> [Fin 1, Fin 2, Fin 4, Fin 3]]\<rparr>
        [Fin 1, Fin 2, Fin 4, Fin 3]))"
proof -
  let ?sm = "engine 2 (\<lambda>s. Inr \<lparr>adfstat = Fin (- 3), pvalue = Fin (1 / 100), usedlag = 0\<rparr>)"
  let ?y = "[Fin 1, Fin 2, Fin 4, Fin 3]"
  let ?df = "\<lparr>index = [0, 1, 2, 3 :: nat], columns = [''Passengers'' \<mapsto> [Fin 1, Fin 2, Fin 4, Fin 3]]\<rparr>"
  have d: "seasonal_decompose ?sm ?y =
     Inr \<lparr>observed = [Fin 1, Fin 2, Fin 4, Fin 3],
          trend = [NaN, Fin (9 / 4), Fin (13 / 4), NaN],
          seasonal = [Fin (1 / 2), Fin (- 1 / 2), Fin (1 / 2), Fin (- 1 / 2)],
          resid = [NaN, Fin (1 / 4), Fin (1 / 4), NaN]\<rparr>"
    using decompose_example by (simp add: engine_def)
  have m: "mean (dropna [NaN, Fin (9 / 4), Fin (13 / 4), NaN]) = Fin (11 / 4)"
    by (simp add: mean_def dropna_def)
  from trend_present_iff_mean_nonzero [OF d, of ?df]
  have "st_write ''- The time series has a trend component.'' \<in> set (shown (analysis ?sm ?df ?y))"
    by (simp add: m fne_def)
  with d m show ?thesis by blast
qed

subsection \<open>The column written by the volatility step\<close>

text \<open>
  Claim C9. An analysis that runs to its end leaves the caller's table changed: the
  column \<^verbatim>\<open>Returns\<close> now holds the percentage-change series of \<^verbatim>\<open>Passengers\<close>
  (line 111), while the index and every other column are as they were.
\<close>

theorem returns_column_added:
  assumes "raised (analysis sm df y) = None" and "length (index df) = length y"
  shows "table (analysis sm df y) = df\<lparr>columns := (columns df)(''Returns'' \<mapsto> pct_change y)\<rparr> \<and>
         index (table (analysis sm df y)) = index df \<and>
         columns (table (analysis sm df y)) ''Returns'' = Some (pct_change y) \<and>
         (\<forall>name. name \<noteq> ''Returns'' \<longrightarrow>
            columns (table (analysis sm df y)) name = columns df name)"
proof -
  from analysis_success [OF assms(1)]
  have "table (analysis sm df y) = add_returns df y" by blast
  then have "table (analysis sm df y) = df\<lparr>columns := (columns df)(''Returns'' \<mapsto> pct_change y)\<rparr>"
    using assms(2) by (simp add: add_returns_eq)
  then show ?thesis by simp
qed

theorem returns_column_added_witness:
  "raised (analysis (engine 2 (\<lambda>s. Inr \<lparr>adfstat = Fin (- 3), pvalue = Fin (1 / 100), usedlag = 0\<rparr>))
             \<lparr>index = [0, 1, 2, 3 :: nat], columns = [''Passengers'' \<mapsto> [Fin 1, Fin 2, Fin 4, Fin 3]]\<rparr>
             [Fin 1, Fin 2, Fin 4, Fin 3]) = None \<and>
   columns (table (analysis (engine 2 (\<lambda>s. Inr \<lparr>adfstat = Fin (- 3), pvalue = Fin (1 / 100), usedlag = 0\<rparr>))
             \<lparr>index = [0, 1, 2, 3 :: nat], columns = [''Passengers'' \<mapsto> [Fin 1, Fin 2, Fin 4, Fin 3]]\<rparr>
             [Fin 1, Fin 2, Fin 4, Fin 3])) ''Returns'' = Some [NaN, Fin 1, Fin 1, Fin (- 1 / 4)]"
proof -
  let ?sm = "engine 2 (\<lambda>s. Inr \<lparr>adfstat = Fin (- 3), pvalue = Fin (1 / 100), usedlag = 0\<rparr>)"
  let ?y = "[Fin 1, Fin 2, Fin 4, Fin 3]"
  let ?df = "\<lparr>index = [0, 1, 2, 3 :: nat], columns = [''Passengers'' \<mapsto> ?y]\<rparr>"
  have h: "raised (analysis ?sm ?df ?y) = None"
    by (rule engine_completes) (simp_all add: dropna_def lags_def len_def)
  have l: "length (index ?df) = length ?y" by simp
  have p: "pct_change ?y = [NaN, Fin 1, Fin 1, Fin (- 1 / 4)]"
    by (simp add: pct_change_def fsub_def)
  from returns_column_added [OF h l]
  have "columns (table (analysis ?sm ?df ?y)) ''Returns'' = Some (pct_change ?y)"
    by blast
  with h p show ?thesis by simp
qed

subsection \<open>The lag bound of the correlation plots\<close>

text \<open>
  Claim C10. The number of lags asked of \<^verbatim>\<open>acf\<close> and \<^verbatim>\<open>pacf\<close> is computed from the
  number of rows of the table, rows with a missing value included (line 91), while both
  are computed on the series with the missing values dropped (lines 92 and 93). So there
  is a table with a missing value for which the number of lags asked for is at least the
  length of the series analysed.
\<close>

theorem lag_bound_counts_missing_rows:
  "(\<forall>df :: 't dataframe. lags df = min (int (length (index df)) - 1) 40) \<and>
   (\<forall>(sm :: 'e statsmodels) (df :: 't dataframe) y.
      raised (analysis sm df y) = None \<longrightarrow>
      (\<exists>a p. acf sm (dropna y) (lags df) = Inr a \<and> pacf sm (dropna y) (lags df) = Inr p \<and>
             st_pyplot (CorrelationFig a p) \<in> set (shown (analysis sm df y)))) \<and>
   (\<exists>(df :: nat dataframe) y.
      columns df ''Passengers'' = Some y \<and> length y = length (index df) \<and>
      NaN \<in> set y \<and> int (length (dropna y)) \<le> lags df)"
proof (intro conjI allI impI)
  fix df :: "'t dataframe"
  show "lags df = min (int (length (index df)) - 1) 40"
    by (simp add: lags_def len_def)
next
  fix sm :: "'e statsmodels" and df :: "'t dataframe" and y
  assume "raised (analysis sm df y) = None"
  from analysis_success [OF this]
  show "\<exists>a p. acf sm (dropna y) (lags df) = Inr a \<and> pacf sm (dropna y) (lags df) = Inr p \<and>
             st_pyplot (CorrelationFig a p) \<in> set (shown (analysis sm df y))"
    by auto
next
  let ?y = "[Fin 1, NaN, Fin 2]"
  let ?df = "\<lparr>index = [0, 1, 2 :: nat], columns = [''Passengers'' \<mapsto> ?y]\<rparr>"
  have "columns ?df ''Passengers'' = Some ?y \<and> length ?y = length (index ?df) \<and>
      NaN \<in> set ?y \<and> int (length (dropna ?y)) \<le> lags ?df"
    by (simp add: dropna_def lags_def len_def)
  then show "\<exists>(df :: nat dataframe) y.
      columns df ''Passengers'' = Some y \<and> length y = length (index df) \<and>
      NaN \<in> set y \<and> int (length (dropna y)) \<le> lags df"
    by blast
qed

theorem lag_bound_counts_missing_rows_witness:
  "raised (analysis (engine 2 (\<lambda>s. Inr \<lparr>adfstat = Fin (- 3), pvalue = Fin (1 / 100), usedlag = 0\<rparr>))
             \<lparr>index = [0, 1, 2, 3, 4 :: nat],
              columns = [''Passengers'' \<mapsto> [Fin 1, Fin 2, NaN, Fin 4, Fin 3]]\<rparr>
             [Fin 1, Fin 2, NaN, Fin 4, Fin 3]) = Some InsufficientDataError \<and>
   lags \<lparr>index = [0, 1, 2, 3, 4 :: nat],
         columns = [''Passengers'' \<mapsto> [Fin 1, Fin 2, NaN, Fin 4, Fin 3]]\<rparr> = 4 \<and>
   length (dropna [Fin 1, Fin 2, NaN, Fin 4, Fin 3]) = 4 \<and>
   raised (analysis (engine 2 (\<lambda>s. Inr \<lparr>adfstat = Fin (- 3), pvalue = Fin (1 / 100), usedlag = 0\<rparr>))
             \<lparr>index = [0, 1, 2, 3 :: nat],
              columns = [''Passengers'' \<mapsto> [Fin 1, Fin 2, Fin 4, Fin 3]]\<rparr>
             [Fin 1, Fin 2, Fin 4, Fin 3]) = None \<and>
   (\<exists>a p. acf (engine 2 (\<lambda>s. Inr \<lparr>adfstat = Fin (- 3), pvalue = Fin (1 / 100), usedlag = 0\<rparr>))
              (dropna [Fin 1, Fin 2, Fin 4, Fin 3]) 3 = Inr a \<and>
           pacf (engine 2 (\<lambda>s. Inr \<lparr>adfstat = Fin (- 3), pvalue = Fin (1 / 100), usedlag = 0\<rparr>))
              (dropna [Fin 1, Fin 2, Fin 4, Fin 3]) 3 = Inr p)"
proof -
  let ?sm = "engine 2 (\<lambda>s. Inr \<lparr>adfstat = Fin (- 3), pvalue = Fin (1 / 100), usedlag = 0\<rparr>)"
  let ?y = "[Fin 1, Fin 2, Fin 4, Fin 3]"
  let ?df = "\<lparr>index = [0, 1, 2, 3 :: nat], columns = [''Passengers'' \<mapsto> ?y]\<rparr>"
  let ?z = "[Fin 1, Fin 2, NaN, Fin 4, Fin 3]"
  let ?dz = "\<lparr>index = [0, 1, 2, 3, 4 :: nat], columns = [''Passengers'' \<mapsto> ?z]\<rparr>"
  have h: "raised (analysis ?sm ?df ?y) = None"
    by (rule engine_completes) (simp_all add: dropna_def lags_def len_def)
  have l: "lags ?df = 3" "lags ?dz = 4"
    by (simp_all add: lags_def len_def)
  have n: "length (dropna ?z) = 4"
    by (simp add: dropna_def)
  have z: "raised (analysis ?sm ?dz ?z) = Some InsufficientDataError"
    by (simp add: analysis_def engine_def decompose_def correlate_def dropna_def lags_def len_def Let_def)
  from lag_bound_counts_missing_rows [where ?'e = error and ?'t = nat] h
  have "\<exists>a p. acf ?sm (dropna ?y) (lags ?df) = Inr a \<and> pacf ?sm (dropna ?y) (lags ?df) = Inr p"
    by blast
  with h l n z show ?thesis by simp
qed

text \<open>
  Claim C5. For a table whose column \<^verbatim>\<open>Passengers\<close> is the input series of length
  \<open>n\<close>, the number of lags of line 91 is \<open>min (n - 1) 40\<close>, and an analysis that runs
  to its end has asked \<^verbatim>\<open>acf\<close> and \<^verbatim>\<open>pacf\<close> for that maximum lag and plotted what they
  returned. Where the two are the correlation computation of the specification, the
  sequences plotted have one value for each of the lags \<open>0\<close> to \<open>min (n - 1) 40\<close>.
\<close>

theorem max_lag_is_clamped:
  assumes "length (index df) = length y" and "raised (analysis sm df y) = None"
  shows "lags df = min (int (length y) - 1) 40 \<and>
         (\<exists>acf_values pacf_values.
            acf sm (dropna y) (min (int (length y) - 1) 40) = Inr acf_values \<and>
            pacf sm (dropna y) (min (int (length y) - 1) 40) = Inr pacf_values \<and>
            st_pyplot (CorrelationFig acf_values pacf_values) \<in> set (shown (analysis sm df y)) \<and>
            (acf sm = (\<lambda>s k. map_sum id fst (correlate s k)) \<and>
             pacf sm = (\<lambda>s k. map_sum id snd (correlate s k)) \<longrightarrow>
               length acf_values = nat (min (int (length y) - 1) 40 + 1) \<and>
               length pacf_values = nat (min (int (length y) - 1) 40 + 1)))"
proof -
  have l: "lags df = min (int (length y) - 1) 40"
    using assms(1) by (simp add: lags_def len_def)
  from analysis_success [OF assms(2)] obtain a p where
    a: "acf sm (dropna y) (lags df) = Inr a" and p: "pacf sm (dropna y) (lags df) = Inr p"
    and s: "st_pyplot (CorrelationFig a p) \<in> set (shown (analysis sm df y))"
    by auto
  have "length a = nat (lags df + 1) \<and> length p = nat (lags df + 1)"
    if e: "acf sm = (\<lambda>s k. map_sum id fst (correlate s k)) \<and>
           pacf sm = (\<lambda>s k. map_sum id snd (correlate s k))"
  proof (cases "correlate (dropna y) (lags df)")
    case (Inl err)
    with a e show ?thesis by simp
  next
    case (Inr r)
    obtain a' p' where r: "r = (a', p')" by (cases r)
    from a p e Inr r have "a' = a" "p' = p" by simp_all
    with Inr r have "correlate (dropna y) (lags df) = Inr (a, p)" by simp
    then show ?thesis using length_correlate by blast
  qed
  with a p s show ?thesis unfolding l by blast
qed

theorem max_lag_is_clamped_witness:
  "raised (analysis (engine 2 (\<lambda>s. Inr \<lparr>adfstat = Fin (- 3), pvalue = Fin (1 / 100), usedlag = 0\<rparr>))
             \<lparr>index = [0, 1, 2, 3 :: nat], columns = [''Passengers'' \<mapsto> [Fin 1, Fin 2, Fin 4, Fin 3]]\<rparr>
             [Fin 1, Fin 2, Fin 4, Fin 3]) = None \<and>
   lags \<lparr>index = [0, 1, 2, 3 :: nat], columns = [''Passengers'' \<mapsto> [Fin 1, Fin 2, Fin 4, Fin 3]]\<rparr> = 3 \<and>
   (\<exists>acf_values pacf_values.
      acf (engine 2 (\<lambda>s. Inr \<lparr>adfstat = Fin (- 3), pvalue = Fin (1 / 100), usedlag = 0\<rparr>))
        (dropna [Fin 1, Fin 2, Fin 4, Fin 3]) 3 = Inr acf_values \<and>
      pacf (engine 2 (\<lambda>s. Inr \<lparr>adfstat = Fin (- 3), pvalue = Fin (1 / 100), usedlag = 0\<rparr>))
        (dropna [Fin 1, Fin 2, Fin 4, Fin 3]) 3 = Inr pacf_values \<and>
      length acf_values = 4 \<and> length pacf_values = 4)"
proof -
  let ?sm = "engine 2 (\<lambda>s. Inr \<lparr>adfstat = Fin (- 3), pvalue = Fin (1 / 100), usedlag = 0\<rparr>)"
  let ?y = "[Fin 1, Fin 2, Fin 4, Fin 3]"
  let ?df = "\<lparr>index = [0, 1, 2, 3 :: nat], columns = [''Passengers'' \<mapsto> ?y]\<rparr>"
  have h: "raised (analysis ?sm ?df ?y) = None"
    by (rule engine_completes) (simp_all add: dropna_def lags_def len_def)
  have l: "length (index ?df) = length ?y" by simp
  have e: "acf ?sm = (\<lambda>s k. map_sum id fst (correlate s k)) \<and>
           pacf ?sm = (\<lambda>s k. map_sum id snd (correlate s k))"
    by (simp add: engine_def)
  have m: "min (int (length ?y) - 1) 40 = 3" by simp
  from max_lag_is_clamped [OF l h] e m
  have "lags ?df = 3" and "\<exists>acf_values pacf_values.
      acf ?sm (dropna ?y) 3 = Inr acf_values \<and> pacf ?sm (dropna ?y) 3 = Inr pacf_values \<and>
      length acf_values = 4 \<and> length pacf_values = 4"
    by (simp, fastforce)
  with h show ?thesis by blast
qed

subsection \<open>A series shorter than two periods\<close>

text \<open>
  Claim C6. On a series shorter than twice the period the decomposer fails with
  \<open>InsufficientDataError\<close>. The \<^verbatim>\<open>try\<close> block ends with this very exception at its
  first statement, having put nothing on the page and left the table as it was, and the
  handler of line 115 reports it: no value is substituted for the failed decomposition.
\<close>

theorem short_series_fails:
  assumes "length y < 2 * period" and "seasonal_decompose sm = (\<lambda>s. decompose s period)"
  shows "decompose y period = Inl InsufficientDataError \<and>
         analysis sm df y = \<lparr>table = df, shown = [], raised = Some InsufficientDataError\<rparr> \<and>
         try_analysis sm df y = (df, [st_error_analysis InsufficientDataError])"
proof -
  have d: "decompose y period = Inl InsufficientDataError"
    using assms(1) by (simp add: decompose_def)
  then have "seasonal_decompose sm y = Inl InsufficientDataError"
    by (simp add: assms(2))
  then have "analysis sm df y = \<lparr>table = df, shown = [], raised = Some InsufficientDataError\<rparr>"
    by (rule analysis_decompose_fails)
  with d show ?thesis by (simp add: try_analysis_def)
qed

theorem short_series_fails_witness:
  "length [Fin 1, Fin 2, Fin 4] < 2 * (2 :: nat) \<and>
   decompose [Fin 1, Fin 2, Fin 4] 2 = Inl InsufficientDataError \<and>
   try_analysis (engine 2 (\<lambda>s. Inr \<lparr>adfstat = Fin (- 3), pvalue = Fin (1 / 100), usedlag = 0\<rparr>))
     \<lparr>index = [0, 1, 2 :: nat], columns = [''Passengers'' \<mapsto> [Fin 1, Fin 2, Fin 4]]\<rparr>
     [Fin 1, Fin 2, Fin 4] =
     (\<lparr>index = [0, 1, 2 :: nat], columns = [''Passengers'' \<mapsto> [Fin 1, Fin 2, Fin 4]]\<rparr>,
      [st_error_analysis InsufficientDataError])"
proof -
  let ?sm = "engine 2 (\<lambda>s. Inr \<lparr>adfstat = Fin (- 3), pvalue = Fin (1 / 100), usedlag = 0\<rparr>)"
  have l: "length [Fin 1, Fin 2, Fin 4] < 2 * (2 :: nat)" by simp
  have e: "seasonal_decompose ?sm = (\<lambda>s. decompose s 2)" by (simp add: engine_def)
  from l short_series_fails [OF l e] show ?thesis by blast
qed

subsection \<open>Correlation at lag 0\<close>

text \<open>
  Claim C3. For every series of finite values that is not constant, a correlation
  computation that succeeds for a maximum lag of at least 0 returns two sequences of
  \<open>max_lag + 1\<close> values each, whose value at lag 0 is exactly 1: the autocorrelation as
  the autocovariance at lag 0 over itself, which is not zero, and the partial
  autocorrelation by its definition.
\<close>

theorem lag_zero_values_are_one:
  assumes "\<exists>a \<in> set rs. \<exists>b \<in> set rs. a \<noteq> b"
    and "correlate (map Fin rs) max_lag = Inr (acf_values, pacf_values)"
    and "0 \<le> max_lag"
  shows "length acf_values = nat (max_lag + 1) \<and> length pacf_values = nat (max_lag + 1) \<and>
         acf_values ! 0 = Fin 1 \<and> pacf_values ! 0 = Fin 1"
proof -
  from assms(1) obtain a b where ab: "a \<in> set rs" "b \<in> set rs" "a \<noteq> b" by blast
  have pos: "0 < nat (max_lag + 1)" using assms(3) by simp
  from assms(2) have v: "acf_values = map (acf_at (map Fin rs)) [0..<nat (max_lag + 1)]"
      "pacf_values = map (pacf_at (map Fin rs)) [0..<nat (max_lag + 1)]"
    by (simp_all add: correlate_def split: if_splits)
  have "acf_values ! 0 = acf_at (map Fin rs) 0" "pacf_values ! 0 = pacf_at (map Fin rs) 0"
    using pos by (simp_all add: v)
  then show ?thesis
    using acf_at_zero [OF ab] by (simp add: pacf_at_def v)
qed

theorem lag_zero_values_are_one_witness:
  "correlate (map Fin [1, 2, 4, 3]) 2
      = Inr ([Fin 1, Fin (3 / 20), Fin (- 1 / 2)], [Fin 1, Fin (3 / 20), Fin (- 209 / 391)]) \<and>
   [Fin 1, Fin (3 / 20), Fin (- 1 / 2)] ! 0 = Fin 1 \<and>
   [Fin 1, Fin (3 / 20), Fin (- 209 / 391)] ! 0 = Fin 1"
proof -
  have c: "correlate (map Fin [1, 2, 4, 3]) 2
      = Inr ([Fin 1, Fin (3 / 20), Fin (- 1 / 2)], [Fin 1, Fin (3 / 20), Fin (- 209 / 391)])"
    by code_simp
  have d: "\<exists>a \<in> set [1, 2, 4, 3 :: real]. \<exists>b \<in> set [1, 2, 4, 3 :: real]. a \<noteq> b"
    by (rule bexI [of _ 1], rule bexI [of _ 2]) simp_all
  from c lag_zero_values_are_one [OF d c] show ?thesis by simp
qed

subsection \<open>The components of the decomposition\<close>





subsection \<open>Volatility\<close>

text \<open>
  Claim C7 at two series. For \<open>0, 1, 1, 2, 6\<close> the first percentage change has a zero
  denominator: the script keeps it, as an infinity, in the column \<^verbatim>\<open>Returns\<close> and the
  volatility it writes is NaN, where the standard deviation of the changes that are
  left once that point is skipped is 1. For \<open>0, 0, 0, 0\<close> every denominator is zero:
  skipping them all would end in \<open>NumericInstabilityError\<close>, and the script has the
  volatility NaN.
\<close>

theorem zero_denominator_not_skipped:
  "pct_change [Fin 0, Fin 1, Fin 1, Fin 2, Fin 6] = [NaN, PInf, Fin 0, Fin 1, Fin 2] \<and>
   columns (add_returns \<lparr>index = [0, 1, 2, 3, 4 :: nat],
                         columns = [''Passengers'' \<mapsto> [Fin 0, Fin 1, Fin 1, Fin 2, Fin 6]]\<rparr>
              [Fin 0, Fin 1, Fin 1, Fin 2, Fin 6]) ''Returns''
     = Some [NaN, PInf, Fin 0, Fin 1, Fin 2] \<and>
   volatility (add_returns \<lparr>index = [0, 1, 2, 3, 4 :: nat],
                            columns = [''Passengers'' \<mapsto> [Fin 0, Fin 1, Fin 1, Fin 2, Fin 6]]\<rparr>
                 [Fin 0, Fin 1, Fin 1, Fin 2, Fin 6]) = NaN \<and>
   pct_change_skipping_zero [Fin 0, Fin 1, Fin 1, Fin 2, Fin 6] = [Fin 0, Fin 1, Fin 2] \<and>
   volatility_skipping_zero [Fin 0, Fin 1, Fin 1, Fin 2, Fin 6] = Inr (Fin 1) \<and>
   volatility_skipping_zero [Fin 0, Fin 0, Fin 0, Fin 0] = Inl NumericInstabilityError \<and>
   columns (add_returns \<lparr>index = [0, 1, 2, 3 :: nat],
                         columns = [''Passengers'' \<mapsto> [Fin 0, Fin 0, Fin 0, Fin 0]]\<rparr>
              [Fin 0, Fin 0, Fin 0, Fin 0]) ''Returns''
     = Some [NaN, NaN, NaN, NaN] \<and>
   volatility (add_returns \<lparr>index = [0, 1, 2, 3 :: nat],
                            columns = [''Passengers'' \<mapsto> [Fin 0, Fin 0, Fin 0, Fin 0]]\<rparr>
                 [Fin 0, Fin 0, Fin 0, Fin 0]) = NaN"
proof -
  let ?y = "[Fin 0, Fin 1, Fin 1, Fin 2, Fin 6]"
  let ?df = "\<lparr>index = [0, 1, 2, 3, 4 :: nat], columns = [''Passengers'' \<mapsto> ?y]\<rparr>"
  let ?z = "[Fin 0, Fin 0, Fin 0, Fin 0]"
  let ?dz = "\<lparr>index = [0, 1, 2, 3 :: nat], columns = [''Passengers'' \<mapsto> ?z]\<rparr>"
  have p: "pct_change ?y = [NaN, PInf, Fin 0, Fin 1, Fin 2]"
    by (simp add: pct_change_def inf_of_sign_def)
  have c: "columns (add_returns ?df ?y) ''Returns'' = Some [NaN, PInf, Fin 0, Fin 1, Fin 2]"
    using volatility_add_returns(1) [of ?df ?y] by (simp add: p)
  have v: "volatility (add_returns ?df ?y) = NaN"
    using volatility_add_returns(2) [of ?df ?y] by (simp add: p std_infinite)
  have s: "pct_change_skipping_zero ?y = [Fin 0, Fin 1, Fin 2]"
    by (simp add: pct_change_skipping_zero_def)
  have "std [Fin 0, Fin 1, Fin 2] = Fin 1"
    by (simp add: std_def dropna_def)
  then have k: "volatility_skipping_zero ?y = Inr (Fin 1)"
    by (simp add: volatility_skipping_zero_def s)
  have n: "volatility_skipping_zero ?z = Inl NumericInstabilityError"
    by (simp add: volatility_skipping_zero_def pct_change_skipping_zero_def)
  have pz: "pct_change ?z = [NaN, NaN, NaN, NaN]"
    by (simp add: pct_change_def inf_of_sign_def)
  have cz: "columns (add_returns ?dz ?z) ''Returns'' = Some [NaN, NaN, NaN, NaN]"
    using volatility_add_returns(1) [of ?dz ?z] by (simp add: pz)
  have vz: "volatility (add_returns ?dz ?z) = NaN"
    using volatility_add_returns(2) [of ?dz ?z] by (simp add: pz std_def dropna_def)
  from p c v s k n cz vz show ?thesis by (intro conjI)
qed

text \<open>
  Claim C7, as the script has it. On a series of finite values the volatility is the
  standard deviation of the column \<^verbatim>\<open>Returns\<close>, which holds the period-over-period
  percentage changes. With at least three values and no zero denominator it is the sample
  standard deviation of the changes \<open>(y[t] - y[t-1]) / y[t-1]\<close>. A point whose
  denominator is zero is not skipped: under a non-zero numerator it is an infinity, which
  stays in the column, and the volatility is then NaN. The step raises no error: once the
  four statsmodels calls have returned, the block runs to its end and its last line is
  the volatility.
\<close>

theorem volatility_of_percentage_changes:
  assumes "length (index (df :: 't dataframe)) = length rs"
  shows "columns (add_returns df (map Fin rs)) ''Returns'' = Some (pct_change (map Fin rs)) \<and>
         volatility (add_returns df (map Fin rs)) = std (pct_change (map Fin rs)) \<and>
         (3 \<le> length rs \<and> 0 \<notin> set (butlast rs) \<longrightarrow>
            volatility (add_returns df (map Fin rs)) = Fin (sample_std (pct_changes rs))) \<and>
         ((\<exists>i. Suc i < length rs \<and> rs ! i = 0 \<and> rs ! Suc i \<noteq> 0) \<longrightarrow>
            (PInf \<in> set (pct_change (map Fin rs)) \<or> NInf \<in> set (pct_change (map Fin rs))) \<and>
            volatility (add_returns df (map Fin rs)) = NaN) \<and>
         (\<forall>(sm :: 'e statsmodels) d result a p.
            seasonal_decompose sm (map Fin rs) = Inr d \<and>
            adfuller sm (dropna (map Fin rs)) = Inr result \<and>
            acf sm (dropna (map Fin rs)) (lags df) = Inr a \<and>
            pacf sm (dropna (map Fin rs)) (lags df) = Inr p \<longrightarrow>
            raised (analysis sm df (map Fin rs)) = None \<and>
            last (shown (analysis sm df (map Fin rs)))
              = st_write_volatility (volatility (add_returns df (map Fin rs))))"
proof (intro conjI allI impI)
  have l: "length (index df) = length (map Fin rs)" using assms by simp
  show c: "columns (add_returns df (map Fin rs)) ''Returns'' = Some (pct_change (map Fin rs))"
    by (rule volatility_add_returns(1) [OF l])
  show v: "volatility (add_returns df (map Fin rs)) = std (pct_change (map Fin rs))"
    by (rule volatility_add_returns(2) [OF l])
  {
    assume h: "3 \<le> length rs \<and> 0 \<notin> set (butlast rs)"
    then have ne: "rs \<noteq> []" by auto
    from h have "3 \<le> length rs" by simp
    then have n: "2 \<le> length (pct_changes rs)" by (simp add: length_pct_changes)
    have "std (pct_change (map Fin rs)) = std (NaN # map Fin (pct_changes rs))"
      using pct_change_Fin [OF ne] h by simp
    also have "\<dots> = Fin (sample_std (pct_changes rs))"
      using std_Fin [OF n] by (simp add: std_Cons_NaN)
    finally show "volatility (add_returns df (map Fin rs)) = Fin (sample_std (pct_changes rs))"
      by (simp add: v)
  }
  {
    assume "\<exists>i. Suc i < length rs \<and> rs ! i = 0 \<and> rs ! Suc i \<noteq> 0"
    then obtain i where "Suc i < length rs" "rs ! i = 0" "rs ! Suc i \<noteq> 0" by blast
    then show i: "PInf \<in> set (pct_change (map Fin rs)) \<or> NInf \<in> set (pct_change (map Fin rs))"
      by (rule pct_change_infinite)
    then show "volatility (add_returns df (map Fin rs)) = NaN"
      by (simp add: v std_infinite)
  }
  {
    fix sm :: "'e statsmodels" and d result a p
    assume "seasonal_decompose sm (map Fin rs) = Inr d \<and>
            adfuller sm (dropna (map Fin rs)) = Inr result \<and>
            acf sm (dropna (map Fin rs)) (lags df) = Inr a \<and>
            pacf sm (dropna (map Fin rs)) (lags df) = Inr p"
    then have e: "seasonal_decompose sm (map Fin rs) = Inr d"
        "adfuller sm (dropna (map Fin rs)) = Inr result"
        "acf sm (dropna (map Fin rs)) (lags df) = Inr a"
        "pacf sm (dropna (map Fin rs)) (lags df) = Inr p"
      by simp_all
    from analysis_completes [OF e]
    show "raised (analysis sm df (map Fin rs)) = None"
      and "last (shown (analysis sm df (map Fin rs)))
              = st_write_volatility (volatility (add_returns df (map Fin rs)))"
      by simp_all
  }
qed

theorem volatility_of_percentage_changes_witness:
  "volatility (add_returns \<lparr>index = [0, 1, 2, 3 :: nat],
                            columns = [''Passengers'' \<mapsto> map Fin [1, 1, 2, 6]]\<rparr>
                 (map Fin [1, 1, 2, 6])) = Fin 1 \<and>
   volatility (add_returns \<lparr>index = [0, 1, 2, 3, 4 :: nat],
                            columns = [''Passengers'' \<mapsto> map Fin [0, 1, 1, 2, 6]]\<rparr>
                 (map Fin [0, 1, 1, 2, 6])) = NaN \<and>
   raised (analysis (engine 2 (\<lambda>s. Inr \<lparr>adfstat = Fin (- 3), pvalue = Fin (1 / 100), usedlag = 0\<rparr>))
             \<lparr>index = [0, 1, 2, 3 :: nat],
              columns = [''Passengers'' \<mapsto> map Fin [1, 1, 2, 6]]\<rparr>
             (map Fin [1, 1, 2, 6])) = None \<and>
   last (shown (analysis (engine 2 (\<lambda>s. Inr \<lparr>adfstat = Fin (- 3), pvalue = Fin (1 / 100), usedlag = 0\<rparr>))
             \<lparr>index = [0, 1, 2, 3 :: nat],
              columns = [''Passengers'' \<mapsto> map Fin [1, 1, 2, 6]]\<rparr>
             (map Fin [1, 1, 2, 6]))) = st_write_volatility (Fin 1)"
proof -
  let ?sm = "engine 2 (\<lambda>s. Inr \<lparr>adfstat = Fin (- 3), pvalue = Fin (1 / 100), usedlag = 0\<rparr>)
               :: error statsmodels"
  let ?rs = "[1, 1, 2, 6 :: real]"
  let ?df = "\<lparr>index = [0, 1, 2, 3 :: nat], columns = [''Passengers'' \<mapsto> map Fin ?rs]\<rparr>"
  let ?zs = "[0, 1, 1, 2, 6 :: real]"
  let ?dz = "\<lparr>index = [0, 1, 2, 3, 4 :: nat], columns = [''Passengers'' \<mapsto> map Fin ?zs]\<rparr>"
  have l: "length (index ?df) = length ?rs" by simp
  have lz: "length (index ?dz) = length ?zs" by simp
  have h1: "3 \<le> length ?rs \<and> 0 \<notin> set (butlast ?rs)" by simp
  have s: "sample_std (pct_changes ?rs) = 1"
    by (simp add: sample_std_def pct_changes_def)
  have h2: "\<exists>i. Suc i < length ?zs \<and> ?zs ! i = 0 \<and> ?zs ! Suc i \<noteq> 0"
    by (rule exI [of _ 0]) simp
  obtain d where d: "seasonal_decompose ?sm (map Fin ?rs) = Inr d"
    by (simp add: engine_def decompose_def Let_def)
  have r: "adfuller ?sm (dropna (map Fin ?rs))
             = Inr \<lparr>adfstat = Fin (- 3), pvalue = Fin (1 / 100), usedlag = 0\<rparr>"
    by (simp add: engine_def)
  obtain a p where c: "correlate (dropna (map Fin ?rs)) (lags ?df) = Inr (a, p)"
    by (simp add: correlate_def dropna_def lags_def len_def)
  then have a: "acf ?sm (dropna (map Fin ?rs)) (lags ?df) = Inr a"
    and p: "pacf ?sm (dropna (map Fin ?rs)) (lags ?df) = Inr p"
    by (simp_all add: engine_def)
  from volatility_of_percentage_changes [OF l]
  have "3 \<le> length ?rs \<and> 0 \<notin> set (butlast ?rs) \<longrightarrow>
          volatility (add_returns ?df (map Fin ?rs)) = Fin (sample_std (pct_changes ?rs))"
    by blast
  with h1 have v1: "volatility (add_returns ?df (map Fin ?rs)) = Fin 1"
    unfolding s by blast
  from volatility_of_percentage_changes [OF lz] h2
  have v2: "volatility (add_returns ?dz (map Fin ?zs)) = NaN" by blast
  from volatility_of_percentage_changes [OF l, where ?'e = error] d r a p
  have "raised (analysis ?sm ?df (map Fin ?rs)) = None \<and>
        last (shown (analysis ?sm ?df (map Fin ?rs)))
          = st_write_volatility (volatility (add_returns ?df (map Fin ?rs)))"
    by blast
  with v1 v2 show ?thesis by simp
qed

end
